theory Spec2Isabelle
  imports Complex_Main "HOL-Library.Log_Nat"
begin

section \<open>The sales order aggregate of s03-hello-typescript\<close>

text \<open>
  A shallow embedding of \<^verbatim>\<open>src/sales/domain/model/sales-order.ts\<close> and
  \<^verbatim>\<open>src/sales/domain/model/sales-order-item.ts\<close>.

  A method of the class mutates \<^verbatim>\<open>this\<close> and either returns or throws. It is
  modelled as a function from the order before the call to a pair: the outcome
  (\<open>Inl\<close> the error thrown, \<open>Inr\<close> the value returned) and the order after the
  call. A throw hands back the order as it is at the throw statement, so that "the order
  is unchanged on failure" is a property to be proved and not a consequence of the types.
\<close>

subsection \<open>Language primitives: strings and numbers\<close>

text \<open>
  A TypeScript \<^verbatim>\<open>string\<close> is a sequence of UTF-16 code units. Identifiers
  (customer, product, order and item ids) are kept as lists of code units, so that
  \<^verbatim>\<open>String.prototype.trim\<close> strips exactly the characters ECMAScript strips:
  WhiteSpace (TAB, VT, FF, SP, NBSP, ZWNBSP and the Unicode space separators) and
  LineTerminator (LF, CR, LS, PS). Error messages are plain ASCII and are kept as HOL
  strings.
\<close>

type_synonym js_string = "nat list"

definition utf16 :: "string \<Rightarrow> js_string" where
  "utf16 s = map of_char s"

definition isWhiteSpace :: "nat \<Rightarrow> bool" where
  "isWhiteSpace c =
     (c \<in> {9, 10, 11, 12, 13, 32, 160, 5760, 8232, 8233, 8239, 8287, 12288, 65279}
      \<or> (8192 \<le> c \<and> c \<le> 8202))"

definition trim :: "js_string \<Rightarrow> js_string" where
  "trim s = rev (dropWhile isWhiteSpace (rev (dropWhile isWhiteSpace s)))"

text \<open>
  A TypeScript \<^verbatim>\<open>number\<close> is an IEEE 754 double. A finite double is kept as the
  rational it denotes, beside the two infinities and NaN; the sign of zero is not kept
  (no operation of the order observes it). The type holds more rationals than there are
  doubles: the arithmetic below returns doubles on all of them.
\<close>

datatype number = Fin rat | PosInf | NegInf | NaN

text \<open>\<^verbatim>\<open>a <= b\<close>: every comparison with NaN is false.\<close>

fun num_le :: "number \<Rightarrow> number \<Rightarrow> bool" where
  "num_le NaN _ = False"
| "num_le _ NaN = False"
| "num_le (Fin x) (Fin y) = (x \<le> y)"
| "num_le NegInf _ = True"
| "num_le _ PosInf = True"
| "num_le _ _ = False"

definition inf_of_sign :: "bool \<Rightarrow> number" where
  "inf_of_sign positive = (if positive then PosInf else NegInf)"

text \<open>
  The result of \<^verbatim>\<open>+\<close> and \<^verbatim>\<open>*\<close> on finite doubles is the exact result rounded to
  the nearest double, ties to the even significand. For a positive \<open>a\<close>, \<open>ilog2 a\<close>
  is the exponent \<open>e\<close> with \<open>2 powi e \<le> a < 2 powi (e + 1)\<close>, read off the bit
  length of an integer: of \<open>\<lfloor>a\<rfloor>\<close> when \<open>1 \<le> a\<close>, of \<open>\<lceil>1 / a\<rceil> - 1\<close> otherwise. The
  doubles between these two powers are the multiples of \<open>2 powi (e - 52)\<close>; in the
  subnormal range, below \<open>2 powi (- 1022)\<close>, the step stays \<open>2 powi (- 1074)\<close>. A
  rounded magnitude of \<open>2 ^ 1024\<close> or more is an overflow: the result is the infinity
  of the sign.
\<close>

definition ilog2 :: "rat \<Rightarrow> int" where
  "ilog2 a = (if 1 \<le> a then bitlen \<lfloor>a\<rfloor> - 1 else - bitlen (\<lceil>1 / a\<rceil> - 1))"

definition round_half_even :: "rat \<Rightarrow> int" where
  "round_half_even y =
     (let f = \<lfloor>y\<rfloor>; d = y - of_int f
      in if d < 1 / 2 then f else if 1 / 2 < d then f + 1 else if even f then f else f + 1)"

definition round_double :: "rat \<Rightarrow> number" where
  "round_double x =
     (if x = 0 then Fin 0
      else (let e = max (ilog2 \<bar>x\<bar>) (- 1022);
                ulp = 2 powi (e - 52);
                r = of_int (round_half_even (\<bar>x\<bar> / ulp)) * ulp
            in if 2 ^ 1024 \<le> r then inf_of_sign (0 < x) else Fin (sgn x * r)))"

text \<open>\<^verbatim>\<open>a + b\<close>: NaN is absorbing, and so is the sum of opposite infinities.\<close>

fun num_add :: "number \<Rightarrow> number \<Rightarrow> number" where
  "num_add NaN _ = NaN"
| "num_add _ NaN = NaN"
| "num_add (Fin x) (Fin y) = round_double (x + y)"
| "num_add PosInf NegInf = NaN"
| "num_add NegInf PosInf = NaN"
| "num_add PosInf _ = PosInf"
| "num_add _ PosInf = PosInf"
| "num_add NegInf _ = NegInf"
| "num_add _ NegInf = NegInf"

text \<open>\<^verbatim>\<open>a * b\<close>: NaN is absorbing, and so is an infinity times zero.\<close>

fun num_mul :: "number \<Rightarrow> number \<Rightarrow> number" where
  "num_mul NaN _ = NaN"
| "num_mul _ NaN = NaN"
| "num_mul (Fin x) (Fin y) = round_double (x * y)"
| "num_mul PosInf (Fin y) = (if y = 0 then NaN else inf_of_sign (0 < y))"
| "num_mul NegInf (Fin y) = (if y = 0 then NaN else inf_of_sign (y < 0))"
| "num_mul (Fin x) PosInf = (if x = 0 then NaN else inf_of_sign (0 < x))"
| "num_mul (Fin x) NegInf = (if x = 0 then NaN else inf_of_sign (x < 0))"
| "num_mul PosInf PosInf = PosInf"
| "num_mul NegInf NegInf = PosInf"
| "num_mul PosInf NegInf = NegInf"
| "num_mul NegInf PosInf = NegInf"

subsection \<open>Errors\<close>

text \<open>
  Every failure of the source is \<^verbatim>\<open>throw new Error(message)\<close>. The model keeps the
  message and tags each throw with the kind the specification gives it: the checks of
  an argument are \<open>InvalidArgument\<close>, the state guards are \<open>IllegalStateTransition\<close>,
  and the failure of Money arithmetic across currencies is \<open>CurrencyMismatch\<close>.
\<close>

datatype error =
    InvalidArgument string
  | IllegalStateTransition string
  | CurrencyMismatch string

subsection \<open>Collaborators outside the source tree\<close>

text \<open>
  Modelled from the spec: the class Currency
  (\<^verbatim>\<open>shared/domain/model/currency\<close> is not among the sources). The specification
  calls it "an enumerated/validated currency code value"; the order only stores it and
  hands it on, so it is a value carrying its code.
\<close>

record Currency =
  code :: string

text \<open>
  Modelled from the spec: the class Money (\<^verbatim>\<open>shared/domain/model/money\<close> is not
  among the sources). The specification: an "immutable amount+currency pair; supports
  addition and scalar multiplication; arithmetic between mismatched currencies must
  fail", with \<^verbatim>\<open>multiply(scalar) -> Money\<close> and \<^verbatim>\<open>add(Money) -> Money\<close>
  (fails on currency mismatch). The specification names no failure of the constructor.
  The amount is a \<^verbatim>\<open>number\<close>, added and multiplied as the language does.
\<close>

record Money =
  amount :: number
  money_currency :: Currency

definition Money_new :: "number \<Rightarrow> Currency \<Rightarrow> Money" where
  "Money_new a c = \<lparr>amount = a, money_currency = c\<rparr>"

definition Money_multiply :: "Money \<Rightarrow> number \<Rightarrow> Money" where
  "Money_multiply m k = Money_new (num_mul (amount m) k) (money_currency m)"

definition Money_add :: "Money \<Rightarrow> Money \<Rightarrow> error + Money" where
  "Money_add m n =
     (if money_currency m = money_currency n
      then Inr (Money_new (num_add (amount m) (amount n)) (money_currency m))
      else Inl (CurrencyMismatch ''currency mismatch''))"

text \<open>
  Modelled from the spec: the class DateTime (\<^verbatim>\<open>shared/domain/model/date-time\<close> is
  not among the sources). The specification: "constructed from an optional date/string,
  fails if invalid or in the future", the order's creation "fails with InvalidArgument if
  orderedAt is not parseable or is in the future; defaults orderedAt to current time".
  An instant is a number of milliseconds since the epoch; the argument
  \<^verbatim>\<open>Date | string\<close> is taken as what it denotes, an instant or nothing (an invalid
  Date, a string that does not parse); the clock is the parameter \<open>now\<close>.
\<close>

datatype date_input = Instant int | Unparseable

record DateTime =
  date :: int

definition DateTime_new :: "int \<Rightarrow> date_input option \<Rightarrow> error + DateTime" where
  "DateTime_new now arg =
     (case arg of
        None \<Rightarrow> Inr \<lparr>date = now\<rparr>
      | Some Unparseable \<Rightarrow> Inl (InvalidArgument ''orderedAt is not parseable'')
      | Some (Instant t) \<Rightarrow>
          (if now < t then Inl (InvalidArgument ''orderedAt is in the future'')
           else Inr \<lparr>date = t\<rparr>))"

subsection \<open>SalesOrderItem\<close>

text \<open>
  \<^verbatim>\<open>uuidv4()\<close> is the library's random generator: the identifier it returns at a
  call is an argument of the model (\<open>uuid\<close>).
\<close>

record SalesOrderItem =
  orderId :: js_string
  itemId :: js_string
  productId :: js_string
  quantity :: number
  unitPrice :: Money

definition SalesOrderItem_new ::
  "js_string \<Rightarrow> js_string \<Rightarrow> js_string \<Rightarrow> number \<Rightarrow> Money \<Rightarrow> SalesOrderItem" where
  "SalesOrderItem_new uuid oid pid q price =
     \<lparr>orderId = oid, itemId = uuid, productId = pid, quantity = q, unitPrice = price\<rparr>"

definition calculateItemPrice :: "SalesOrderItem \<Rightarrow> Money" where
  "calculateItemPrice item = Money_multiply (unitPrice item) (quantity item)"

subsection \<open>SalesOrder\<close>

datatype SalesOrderState = PENDING | CONFIRMED | SHIPPED | CANCELLED

text \<open>The state is a string literal type: this is the text a template literal prints.\<close>

fun state_name :: "SalesOrderState \<Rightarrow> string" where
  "state_name PENDING = ''PENDING''"
| "state_name CONFIRMED = ''CONFIRMED''"
| "state_name SHIPPED = ''SHIPPED''"
| "state_name CANCELLED = ''CANCELLED''"

record SalesOrder =
  customerId :: js_string
  id' :: js_string
  items :: "SalesOrderItem list"
  orderedAt :: DateTime
  currency :: Currency
  state :: SalesOrderState

text \<open>
  The constructor. A constructor that throws yields no object, so the result is the
  error or the finished order. The statements run in the source's order: the check of
  customerId, then the field assignments, with DateTime's validation before the state is
  set.
\<close>

definition SalesOrder_new ::
  "int \<Rightarrow> js_string \<Rightarrow> js_string \<Rightarrow> Currency \<Rightarrow> date_input option \<Rightarrow> error + SalesOrder" where
  "SalesOrder_new now uuid cid cur arg =
     (if cid = [] \<or> trim cid = [] then Inl (InvalidArgument ''Customer ID cannot be empty'')
      else (case DateTime_new now arg of
              Inl e \<Rightarrow> Inl e
            | Inr dt \<Rightarrow>
                Inr \<lparr>customerId = trim cid, id' = uuid, items = [], orderedAt = dt,
                     currency = cur, state = PENDING\<rparr>))"

definition canAddItems :: "SalesOrder \<Rightarrow> bool" where
  "canAddItems ord = (state ord \<noteq> CANCELLED \<and> state ord \<noteq> SHIPPED)"

definition addItem ::
  "js_string \<Rightarrow> js_string \<Rightarrow> number \<Rightarrow> number \<Rightarrow> SalesOrder \<Rightarrow> (error + unit) \<times> SalesOrder" where
  "addItem uuid pid q unitPriceAmount ord =
     (if pid = [] \<or> trim pid = []
      then (Inl (InvalidArgument ''Product ID cannot be empty''), ord)
      else if num_le q (Fin 0)
      then (Inl (InvalidArgument ''Quantity must be greater than zero''), ord)
      else if \<not> canAddItems ord
      then (Inl (IllegalStateTransition
                  (''Cannot add items to a '' @ state_name (state ord) @ '' order'')), ord)
      else (let price = Money_new unitPriceAmount (currency ord);
                item = SalesOrderItem_new uuid (id' ord) (trim pid) q price
            in (Inr (), ord\<lparr>items := items ord @ [item]\<rparr>)))"

text \<open>
  \<^verbatim>\<open>reduce\<close> runs over the items from the left; the callback throws when
  \<^verbatim>\<open>Money.add\<close> does, which ends the reduction.
\<close>

fun reduce_total :: "Money \<Rightarrow> SalesOrderItem list \<Rightarrow> error + Money" where
  "reduce_total sofar [] = Inr sofar"
| "reduce_total sofar (item # rest) =
     (case Money_add sofar (calculateItemPrice item) of
        Inl e \<Rightarrow> Inl e
      | Inr t \<Rightarrow> reduce_total t rest)"

definition calculateTotalPrice :: "SalesOrder \<Rightarrow> (error + Money) \<times> SalesOrder" where
  "calculateTotalPrice ord =
     (reduce_total (Money_new (Fin 0) (currency ord)) (items ord), ord)"

definition confirm :: "SalesOrder \<Rightarrow> (error + unit) \<times> SalesOrder" where
  "confirm ord =
     (if state ord = PENDING then (Inr (), ord\<lparr>state := CONFIRMED\<rparr>)
      else (Inl (IllegalStateTransition
                  (''Cannot confirm an order that is '' @ state_name (state ord))), ord))"

definition ship :: "SalesOrder \<Rightarrow> (error + unit) \<times> SalesOrder" where
  "ship ord =
     (if state ord = CONFIRMED then (Inr (), ord\<lparr>state := SHIPPED\<rparr>)
      else (Inl (IllegalStateTransition
                  (''Cannot ship an order that is '' @ state_name (state ord))), ord))"

definition cancel :: "SalesOrder \<Rightarrow> (error + unit) \<times> SalesOrder" where
  "cancel ord =
     (if state ord = SHIPPED \<or> state ord = CANCELLED
      then (Inl (IllegalStateTransition
                  (''Cannot cancel an order that is '' @ state_name (state ord))), ord)
      else (Inr (), ord\<lparr>state := CANCELLED\<rparr>))"

subsection \<open>Callers\<close>

text \<open>
  A caller holds an order and calls its public mutators one after the other, going on
  after a failure if it catches the error. The orders that can exist are the ones a
  successful constructor returns, after any such sequence of calls.
\<close>

datatype call = AddItem js_string js_string number number | Confirm | Ship | Cancel

fun perform :: "call \<Rightarrow> SalesOrder \<Rightarrow> SalesOrder" where
  "perform (AddItem uuid pid q a) ord = snd (addItem uuid pid q a ord)"
| "perform Confirm ord = snd (confirm ord)"
| "perform Ship ord = snd (ship ord)"
| "perform Cancel ord = snd (cancel ord)"

definition perform_all :: "call list \<Rightarrow> SalesOrder \<Rightarrow> SalesOrder" where
  "perform_all calls ord = fold perform calls ord"

text \<open>
  An order as the demonstration script creates its first one (in USD, at the current
  time), before any item is added; the identifiers stand for the generated ones.
\<close>

definition usd :: Currency where
  "usd = \<lparr>code = ''USD''\<rparr>"

definition demo_order :: SalesOrder where
  "demo_order =
     \<lparr>customerId = utf16 ''c-1'', id' = utf16 ''o-1'', items = [],
      orderedAt = \<lparr>date = 0\<rparr>, currency = usd, state = PENDING\<rparr>"


subsection \<open>Predicates of the specification\<close>

text \<open>
  The hypothesis of the specification on the constructor's date: "orderedAt valid and not
  in the future", an absent argument standing for the current time.
\<close>

definition valid_orderedAt :: "int \<Rightarrow> date_input option \<Rightarrow> bool" where
  "valid_orderedAt now arg =
     (case arg of None \<Rightarrow> True | Some Unparseable \<Rightarrow> False | Some (Instant t) \<Rightarrow> t \<le> now)"

text \<open>The specification's "positive integer", on the numbers of the language.\<close>

definition positive_integer :: "number \<Rightarrow> bool" where
  "positive_integer n =
     (case n of Fin x \<Rightarrow> 0 < x \<and> of_int \<lfloor>x\<rfloor> = x | PosInf \<Rightarrow> False | NegInf \<Rightarrow> False
      | NaN \<Rightarrow> False)"

text \<open>An item's subtotal as a number: the unit price's amount times the quantity.\<close>

definition subtotal :: "SalesOrderItem \<Rightarrow> number" where
  "subtotal item = num_mul (amount (unitPrice item)) (quantity item)"

subsection \<open>Invariants of the item sequence\<close>

text \<open>Every unit price held by the order is in the order's currency.\<close>

definition items_in_currency :: "SalesOrder \<Rightarrow> bool" where
  "items_in_currency ord =
     list_all (\<lambda>i. money_currency (unitPrice i) = currency ord) (items ord)"

text \<open>Every quantity held by the order has passed the test of \<open>addItem\<close>.\<close>

definition quantities_accepted :: "SalesOrder \<Rightarrow> bool" where
  "quantities_accepted ord = list_all (\<lambda>i. \<not> num_le (quantity i) (Fin 0)) (items ord)"

section \<open>Auxiliary facts\<close>

lemma trim_Nil: "trim [] = []"
  by (simp add: trim_def)

lemma reduce_total_fold:
  "list_all (\<lambda>i. money_currency (unitPrice i) = money_currency acc) xs \<Longrightarrow>
   reduce_total acc xs =
     Inr (Money_new (foldl num_add (amount acc) (map subtotal xs)) (money_currency acc))"
proof (induction xs arbitrary: acc)
  case Nil
  show ?case by (simp add: Money_new_def)
next
  case (Cons x xs)
  let ?acc' = "Money_new (num_add (amount acc) (subtotal x)) (money_currency acc)"
  from Cons.prems have cur: "money_currency (unitPrice x) = money_currency acc"
    and rest: "list_all (\<lambda>i. money_currency (unitPrice i) = money_currency ?acc') xs"
    by (simp_all add: Money_new_def)
  have step: "Money_add acc (calculateItemPrice x) = Inr ?acc'"
    using cur by (simp add: Money_add_def calculateItemPrice_def Money_multiply_def
        Money_new_def subtotal_def)
  show ?case
    using Cons.IH [OF rest] step by (simp add: Money_new_def)
qed

text \<open>The exponent that \<open>ilog2\<close> computes is the one its description states.\<close>

lemma ilog2_bounds:
  assumes "0 < a"
  shows "2 powi ilog2 a \<le> a \<and> a < 2 powi (ilog2 a + 1)"
proof (cases "1 \<le> a")
  case True
  define n where "n = \<lfloor>a\<rfloor>"
  have n: "0 < n" using True by (simp add: n_def)
  have le: "of_int n \<le> a" and lt: "a < of_int n + 1"
    unfolding n_def by linarith+
  from bitlen_bounds [OF n] have lo: "2 ^ nat (bitlen n - 1) \<le> n" and hi: "n < 2 ^ nat (bitlen n)"
    by simp_all
  from n have b1: "1 \<le> bitlen n" by (simp add: bitlen_alt_def)
  have e: "ilog2 a = bitlen n - 1" using True by (simp add: ilog2_def n_def)
  have "(2::rat) powi (bitlen n - 1) = of_int (2 ^ nat (bitlen n - 1))"
    using b1 by (simp add: power_int_def)
  also have "\<dots> \<le> of_int n" using lo by (simp only: of_int_le_iff)
  finally have 1: "2 powi ilog2 a \<le> a" using le by (simp add: e)
  from hi have "n + 1 \<le> 2 ^ nat (bitlen n)" by simp
  then have "(of_int (n + 1) :: rat) \<le> of_int (2 ^ nat (bitlen n))"
    by (simp only: of_int_le_iff)
  moreover have "(2::rat) powi (bitlen n - 1 + 1) = of_int (2 ^ nat (bitlen n))"
    using b1 by (simp add: power_int_def)
  ultimately have 2: "a < 2 powi (ilog2 a + 1)" using lt by (simp add: e)
  from 1 2 show ?thesis ..
next
  case False
  define m where "m = \<lceil>1 / a\<rceil> - 1"
  define k where "k = bitlen m"
  from False assms have b: "1 < 1 / a" by simp
  then have m: "0 < m" unfolding m_def by linarith
  have up: "1 / a \<le> of_int m + 1" and low: "of_int m < 1 / a"
    unfolding m_def by linarith+
  from bitlen_bounds [OF m] have lo: "2 ^ nat (k - 1) \<le> m" and hi: "m < 2 ^ nat k"
    by (simp_all add: k_def)
  from m have k1: "1 \<le> k" by (simp add: k_def bitlen_alt_def)
  have e: "ilog2 a = - k" using False by (simp add: ilog2_def m_def k_def)
  from hi have "m + 1 \<le> 2 ^ nat k" by simp
  then have "(of_int (m + 1) :: rat) \<le> of_int (2 ^ nat k)" by (simp only: of_int_le_iff)
  then have "(of_int m :: rat) + 1 \<le> 2 ^ nat k" by simp
  with up have "1 / a \<le> 2 ^ nat k" by linarith
  with assms have "1 / 2 ^ nat k \<le> a"
    by (simp add: field_simps)
  moreover have "(2::rat) powi (- k) = 1 / 2 ^ nat k"
    using k1 by (simp add: power_int_def field_simps)
  ultimately have 1: "2 powi ilog2 a \<le> a" by (simp add: e)
  from lo have "(of_int (2 ^ nat (k - 1)) :: rat) \<le> of_int m" by (simp only: of_int_le_iff)
  then have "(2::rat) ^ nat (k - 1) \<le> of_int m" by simp
  with low have "2 ^ nat (k - 1) < 1 / a" by linarith
  with assms have "a < 1 / 2 ^ nat (k - 1)"
    by (simp add: field_simps)
  moreover have "(2::rat) powi (- k + 1) = 1 / 2 ^ nat (k - 1)"
  proof (cases "k = 1")
    case True then show ?thesis by simp
  next
    case False
    with k1 have "- k + 1 < 0" by simp
    moreover have "nat (- (- k + 1)) = nat (k - 1)" by simp
    ultimately show ?thesis by (simp add: power_int_def field_simps)
  qed
  ultimately have 2: "a < 2 powi (ilog2 a + 1)" by (simp add: e)
  from 1 2 show ?thesis ..
qed

text \<open>The products and sums of the demonstration script are doubles: rounding keeps them.\<close>

lemma round_double_200: "round_double 200 = Fin 200"
  by code_simp

lemma round_double_1000: "round_double 1000 = Fin 1000"
  by code_simp

lemma round_double_1200: "round_double 1200 = Fin 1200"
  by code_simp

lemma perform_items_in_currency:
  "items_in_currency ord \<Longrightarrow> items_in_currency (perform c ord)"
  by (cases c)
    (auto simp add: items_in_currency_def addItem_def confirm_def ship_def cancel_def Let_def
      SalesOrderItem_new_def Money_new_def)

lemma perform_all_items_in_currency:
  "items_in_currency ord \<Longrightarrow> items_in_currency (perform_all calls ord)"
  unfolding perform_all_def
  by (induction calls arbitrary: ord) (simp_all add: perform_items_in_currency)

lemma perform_quantities_accepted:
  "quantities_accepted ord \<Longrightarrow> quantities_accepted (perform c ord)"
  by (cases c)
    (auto simp add: quantities_accepted_def addItem_def confirm_def ship_def cancel_def Let_def
      SalesOrderItem_new_def)

lemma perform_all_quantities_accepted:
  "quantities_accepted ord \<Longrightarrow> quantities_accepted (perform_all calls ord)"
  unfolding perform_all_def
  by (induction calls arbitrary: ord) (simp_all add: perform_quantities_accepted)

lemma SalesOrder_new_Inr:
  "SalesOrder_new now uuid cid cur arg = Inr ord \<Longrightarrow>
   state ord = PENDING \<and> items ord = [] \<and> currency ord = cur \<and> id' ord = uuid \<and>
   customerId ord = trim cid"
  by (auto simp add: SalesOrder_new_def split: if_splits sum.splits)

lemma calculateTotalPrice_invariant:
  "items_in_currency ord \<Longrightarrow>
   calculateTotalPrice ord =
     (Inr (Money_new (foldl num_add (Fin 0) (map subtotal (items ord))) (currency ord)), ord)"
  using reduce_total_fold [of "Money_new (Fin 0) (currency ord)" "items ord"]
  by (simp add: calculateTotalPrice_def items_in_currency_def Money_new_def)

lemma demo_order_new:
  "SalesOrder_new 0 (utf16 ''o-1'') (utf16 ''c-1'') usd None = Inr demo_order"
  by (simp add: SalesOrder_new_def DateTime_new_def demo_order_def utf16_def trim_def
      isWhiteSpace_def)

section \<open>The claims\<close>

text \<open>
  Claim C1. The state moves along the edges PENDING to CONFIRMED (confirm), CONFIRMED to
  SHIPPED (ship) and PENDING or CONFIRMED to CANCELLED (cancel), and along no other: a
  call from one of these states succeeds and changes the state field only; a call from
  any other state fails with IllegalStateTransition and leaves the order as it was.
\<close>

theorem state_transitions_follow_edges:
  "(state ord = PENDING \<longrightarrow> confirm ord = (Inr (), ord\<lparr>state := CONFIRMED\<rparr>)) \<and>
   (state ord \<noteq> PENDING \<longrightarrow> (\<exists>m. confirm ord = (Inl (IllegalStateTransition m), ord))) \<and>
   (state ord = CONFIRMED \<longrightarrow> ship ord = (Inr (), ord\<lparr>state := SHIPPED\<rparr>)) \<and>
   (state ord \<noteq> CONFIRMED \<longrightarrow> (\<exists>m. ship ord = (Inl (IllegalStateTransition m), ord))) \<and>
   (state ord = PENDING \<or> state ord = CONFIRMED \<longrightarrow>
      cancel ord = (Inr (), ord\<lparr>state := CANCELLED\<rparr>)) \<and>
   (state ord = SHIPPED \<or> state ord = CANCELLED \<longrightarrow>
      (\<exists>m. cancel ord = (Inl (IllegalStateTransition m), ord)))"
  by (cases "state ord") (simp_all add: confirm_def ship_def cancel_def)

theorem state_transitions_follow_edges_witness:
  "confirm demo_order = (Inr (), demo_order\<lparr>state := CONFIRMED\<rparr>) \<and>
   ship (demo_order\<lparr>state := CONFIRMED\<rparr>) = (Inr (), demo_order\<lparr>state := SHIPPED\<rparr>) \<and>
   cancel demo_order = (Inr (), demo_order\<lparr>state := CANCELLED\<rparr>) \<and>
   cancel (demo_order\<lparr>state := CONFIRMED\<rparr>) = (Inr (), demo_order\<lparr>state := CANCELLED\<rparr>) \<and>
   (\<exists>m. ship demo_order = (Inl (IllegalStateTransition m), demo_order)) \<and>
   (\<exists>m. confirm (demo_order\<lparr>state := SHIPPED\<rparr>) =
           (Inl (IllegalStateTransition m), demo_order\<lparr>state := SHIPPED\<rparr>)) \<and>
   (\<exists>m. cancel (demo_order\<lparr>state := SHIPPED\<rparr>) =
           (Inl (IllegalStateTransition m), demo_order\<lparr>state := SHIPPED\<rparr>))"
proof -
  have s: "state demo_order = PENDING"
    by (simp add: demo_order_def)
  show ?thesis
    using s state_transitions_follow_edges [of demo_order]
      state_transitions_follow_edges [of "demo_order\<lparr>state := CONFIRMED\<rparr>"]
      state_transitions_follow_edges [of "demo_order\<lparr>state := SHIPPED\<rparr>"]
    by simp
qed




text \<open>
  Claim C3. For a customerId that is not blank and an orderedAt that is absent or an
  instant not after the clock, the constructor succeeds; the order is PENDING, has no
  item and is in the given currency, and calculateTotalPrice returns the zero amount in
  that currency.
\<close>

theorem new_order_pending_empty_zero_total:
  assumes "trim cid \<noteq> []" and "valid_orderedAt now arg"
  shows "\<exists>ord. SalesOrder_new now uuid cid cur arg = Inr ord \<and>
           state ord = PENDING \<and> items ord = [] \<and> currency ord = cur \<and>
           calculateTotalPrice ord = (Inr (Money_new (Fin 0) cur), ord)"
proof -
  from assms(1) have ne: "cid \<noteq> []"
    by (auto simp add: trim_Nil)
  from assms(2) obtain dt where dt: "DateTime_new now arg = Inr dt"
    by (auto simp add: valid_orderedAt_def DateTime_new_def
        split: option.splits date_input.splits)
  show ?thesis
    using assms(1) ne dt by (simp add: SalesOrder_new_def calculateTotalPrice_def)
qed

theorem new_order_pending_empty_zero_total_witness:
  "trim (utf16 ''c-1'') \<noteq> [] \<and> valid_orderedAt 0 None \<and>
   SalesOrder_new 0 (utf16 ''o-1'') (utf16 ''c-1'') usd None = Inr demo_order \<and>
   state demo_order = PENDING \<and> items demo_order = [] \<and>
   calculateTotalPrice demo_order = (Inr (Money_new (Fin 0) usd), demo_order)"
proof -
  have a: "trim (utf16 ''c-1'') \<noteq> []"
    by (simp add: utf16_def trim_def isWhiteSpace_def)
  have b: "valid_orderedAt 0 None"
    by (simp add: valid_orderedAt_def)
  show ?thesis
    using a b demo_order_new new_order_pending_empty_zero_total [OF a b, of "utf16 ''o-1''" usd]
    by auto
qed

text \<open>
  Claim C4. On every order that can exist (built by the constructor, then any calls of
  the mutators), calculateTotalPrice leaves the order as it is and returns, in the
  order's currency, the sum of the items' subtotals (unit price times quantity): the
  subtotals are added one after the other, in the order of the items, to a zero amount,
  each product and each partial sum being a \<^verbatim>\<open>number\<close> of the language. In
  particular a new order with the items (quantity 2, price 100) and (quantity 20,
  price 50) totals 1200 in its currency.
\<close>

theorem calculateTotalPrice_pure_sum:
  assumes new: "SalesOrder_new now uuid cid cur arg = Inr ord0"
    and ord: "ord = perform_all calls ord0"
  shows "calculateTotalPrice ord =
           (Inr (Money_new (foldl num_add (Fin 0) (map subtotal (items ord))) (currency ord)), ord)
       \<and> (trim p1 \<noteq> [] \<and> trim p2 \<noteq> [] \<longrightarrow>
            fst (calculateTotalPrice
                  (perform_all [AddItem u1 p1 (Fin 2) (Fin 100), AddItem u2 p2 (Fin 20) (Fin 50)]
                     ord0)) = Inr (Money_new (Fin 1200) cur))"
proof -
  from new have "items_in_currency ord0"
    by (auto dest: SalesOrder_new_Inr simp add: items_in_currency_def)
  then have inv: "items_in_currency ord"
    unfolding ord by (rule perform_all_items_in_currency)
  have total: "calculateTotalPrice ord =
      (Inr (Money_new (foldl num_add (Fin 0) (map subtotal (items ord))) (currency ord)), ord)"
    using inv by (rule calculateTotalPrice_invariant)
  from new have fresh: "state ord0 = PENDING" "items ord0 = []" "currency ord0 = cur"
    by (auto dest: SalesOrder_new_Inr)
  have demo: "fst (calculateTotalPrice
                  (perform_all [AddItem u1 p1 (Fin 2) (Fin 100), AddItem u2 p2 (Fin 20) (Fin 50)]
                     ord0)) = Inr (Money_new (Fin 1200) cur)"
    if "trim p1 \<noteq> []" "trim p2 \<noteq> []"
  proof -
    from that have "p1 \<noteq> []" "p2 \<noteq> []" by (auto simp add: trim_Nil)
    with that show ?thesis
      by (simp add: perform_all_def addItem_def canAddItems_def fresh Let_def
          calculateTotalPrice_def Money_add_def calculateItemPrice_def Money_multiply_def
          Money_new_def SalesOrderItem_new_def round_double_200 round_double_1000
          round_double_1200)
  qed
  from total demo show ?thesis by blast
qed

theorem calculateTotalPrice_pure_sum_witness:
  "SalesOrder_new 0 (utf16 ''o-1'') (utf16 ''c-1'') usd None = Inr demo_order \<and>
   fst (calculateTotalPrice
         (perform_all [AddItem (utf16 ''i-1'') (utf16 ''P001'') (Fin 2) (Fin 100),
                       AddItem (utf16 ''i-2'') (utf16 ''P002'') (Fin 20) (Fin 50)] demo_order))
     = Inr (Money_new (Fin 1200) usd)"
proof -
  have p: "trim (utf16 ''P001'') \<noteq> [] \<and> trim (utf16 ''P002'') \<noteq> []"
    by (simp add: utf16_def trim_def isWhiteSpace_def)
  show ?thesis
    using demo_order_new p
      calculateTotalPrice_pure_sum [where calls = "[]" and ?p1.0 = "utf16 ''P001''" and ?p2.0 = "utf16 ''P002''"
          and ?u1.0 = "utf16 ''i-1''" and ?u2.0 = "utf16 ''i-2''", OF demo_order_new refl]
    by simp
qed

text \<open>
  Claim C5. A call of addItem never changes the state field, whether it succeeds or
  fails; when it succeeds the item sequence is one longer and the items it held before
  are its unchanged prefix.
\<close>

theorem addItem_frame:
  assumes "addItem uuid pid q a ord = (r, ord')"
  shows "state ord' = state ord \<and>
         (r = Inr () \<longrightarrow>
            length (items ord') = length (items ord) + 1 \<and>
            take (length (items ord)) (items ord') = items ord)"
  using assms by (auto simp add: addItem_def Let_def split: if_splits)

theorem addItem_frame_witness:
  "addItem (utf16 ''i-1'') (utf16 ''P001'') (Fin 2) (Fin 100) demo_order =
     (Inr (), demo_order\<lparr>items :=
        [SalesOrderItem_new (utf16 ''i-1'') (utf16 ''o-1'') (utf16 ''P001'') (Fin 2)
           (Money_new (Fin 100) usd)]\<rparr>) \<and>
   state (demo_order\<lparr>items :=
        [SalesOrderItem_new (utf16 ''i-1'') (utf16 ''o-1'') (utf16 ''P001'') (Fin 2)
           (Money_new (Fin 100) usd)]\<rparr>) = state demo_order \<and>
   length (items (demo_order\<lparr>items :=
        [SalesOrderItem_new (utf16 ''i-1'') (utf16 ''o-1'') (utf16 ''P001'') (Fin 2)
           (Money_new (Fin 100) usd)]\<rparr>)) = length (items demo_order) + 1"
proof -
  have run: "addItem (utf16 ''i-1'') (utf16 ''P001'') (Fin 2) (Fin 100) demo_order =
     (Inr (), demo_order\<lparr>items :=
        [SalesOrderItem_new (utf16 ''i-1'') (utf16 ''o-1'') (utf16 ''P001'') (Fin 2)
           (Money_new (Fin 100) usd)]\<rparr>)"
    by (simp add: addItem_def canAddItems_def demo_order_def utf16_def trim_def
        isWhiteSpace_def Let_def)
  show ?thesis
    using run addItem_frame [OF run] by simp
qed

text \<open>
  Claim C6. addItem fails with InvalidArgument, leaving the order as it was, when
  productId is blank (empty after trimming) or quantity \<open>\<le> 0\<close>. Otherwise, in a state
  other than CANCELLED and SHIPPED, it succeeds and appends exactly one item: the
  order's id, the fresh item id, the trimmed productId, the quantity, and the unit price
  Money(unitPriceAmount, currency of the order).
\<close>

theorem addItem_validates_then_appends:
  "(trim pid = [] \<or> num_le q (Fin 0) \<longrightarrow>
      (\<exists>m. addItem uuid pid q a ord = (Inl (InvalidArgument m), ord))) \<and>
   (trim pid \<noteq> [] \<and> \<not> num_le q (Fin 0) \<and> state ord \<noteq> CANCELLED \<and> state ord \<noteq> SHIPPED \<longrightarrow>
      addItem uuid pid q a ord =
        (Inr (), ord\<lparr>items := items ord @
           [\<lparr>orderId = id' ord, itemId = uuid, productId = trim pid, quantity = q,
             unitPrice = Money_new a (currency ord)\<rparr>]\<rparr>))"
  by (auto simp add: addItem_def canAddItems_def trim_Nil SalesOrderItem_new_def)

theorem addItem_validates_then_appends_witness:
  "trim (utf16 '' P001 '') = utf16 ''P001'' \<and>
   addItem (utf16 ''i-1'') (utf16 '' P001 '') (Fin 2) (Fin 100) demo_order =
     (Inr (), demo_order\<lparr>items :=
        [\<lparr>orderId = utf16 ''o-1'', itemId = utf16 ''i-1'', productId = utf16 ''P001'',
          quantity = Fin 2, unitPrice = Money_new (Fin 100) usd\<rparr>]\<rparr>) \<and>
   (\<exists>m. addItem (utf16 ''i-1'') (utf16 ''  '') (Fin 2) (Fin 100) demo_order =
           (Inl (InvalidArgument m), demo_order)) \<and>
   (\<exists>m. addItem (utf16 ''i-1'') (utf16 ''P001'') (Fin 0) (Fin 100) demo_order =
           (Inl (InvalidArgument m), demo_order))"
proof -
  have t: "trim (utf16 '' P001 '') = utf16 ''P001''" "trim (utf16 ''  '') = []"
    "trim (utf16 ''P001'') = utf16 ''P001''" "utf16 ''P001'' \<noteq> []"
    by (simp_all add: utf16_def trim_def isWhiteSpace_def)
  have d: "state demo_order = PENDING" "items demo_order = []" "id' demo_order = utf16 ''o-1''"
    "currency demo_order = usd"
    by (simp_all add: demo_order_def)
  show ?thesis
    using t d
      addItem_validates_then_appends [of "utf16 '' P001 ''" "Fin 2" "utf16 ''i-1''" "Fin 100" demo_order]
      addItem_validates_then_appends [of "utf16 ''  ''" "Fin 2" "utf16 ''i-1''" "Fin 100" demo_order]
      addItem_validates_then_appends [of "utf16 ''P001''" "Fin 0" "utf16 ''i-1''" "Fin 100" demo_order]
    by simp
qed

text \<open>
  Claim C7. confirm succeeds exactly from PENDING, and the state becomes CONFIRMED; from
  CONFIRMED, SHIPPED and CANCELLED it fails with IllegalStateTransition, the order is
  unchanged, and the message ends with the name of the current state.
\<close>

theorem confirm_only_from_pending:
  "(state ord = PENDING \<longrightarrow> confirm ord = (Inr (), ord\<lparr>state := CONFIRMED\<rparr>)) \<and>
   (state ord \<noteq> PENDING \<longrightarrow>
      state ord \<in> {CONFIRMED, SHIPPED, CANCELLED} \<and>
      confirm ord =
        (Inl (IllegalStateTransition
               (''Cannot confirm an order that is '' @ state_name (state ord))), ord))"
  by (cases "state ord") (simp_all add: confirm_def)

theorem confirm_only_from_pending_witness:
  "confirm demo_order = (Inr (), demo_order\<lparr>state := CONFIRMED\<rparr>) \<and>
   confirm (demo_order\<lparr>state := CONFIRMED\<rparr>) =
     (Inl (IllegalStateTransition ''Cannot confirm an order that is CONFIRMED''),
      demo_order\<lparr>state := CONFIRMED\<rparr>)"
proof -
  have s: "state demo_order = PENDING"
    by (simp add: demo_order_def)
  show ?thesis
    using s confirm_only_from_pending [of demo_order] confirm_only_from_pending [of "demo_order\<lparr>state := CONFIRMED\<rparr>"]
    by simp
qed

text \<open>
  Claim C8. A call of addItem, confirm, ship or cancel that fails leaves the whole order
  (state and item sequence included) exactly as it was before the call. The constructor
  either fails, and then there is no order, or returns an order with every field set.
\<close>

theorem failure_leaves_order_unchanged:
  "(addItem uuid pid q a ord = (Inl e, ord') \<longrightarrow> ord' = ord) \<and>
   (confirm ord = (Inl e, ord') \<longrightarrow> ord' = ord) \<and>
   (ship ord = (Inl e, ord') \<longrightarrow> ord' = ord) \<and>
   (cancel ord = (Inl e, ord') \<longrightarrow> ord' = ord) \<and>
   ((\<exists>e'. SalesOrder_new now uuid cid cur arg = Inl e') \<or>
    (\<exists>new. SalesOrder_new now uuid cid cur arg = Inr new \<and>
       customerId new = trim cid \<and> id' new = uuid \<and> currency new = cur \<and>
       items new = [] \<and> state new = PENDING))"
  by (auto simp add: addItem_def confirm_def ship_def cancel_def SalesOrder_new_def Let_def
      split: if_splits sum.splits)

theorem failure_leaves_order_unchanged_witness:
  "addItem (utf16 ''i-1'') (utf16 ''P001'') (Fin 0) (Fin 100) demo_order =
     (Inl (InvalidArgument ''Quantity must be greater than zero''), demo_order) \<and>
   confirm (demo_order\<lparr>state := SHIPPED\<rparr>) =
     (Inl (IllegalStateTransition ''Cannot confirm an order that is SHIPPED''),
      demo_order\<lparr>state := SHIPPED\<rparr>) \<and>
   ship demo_order =
     (Inl (IllegalStateTransition ''Cannot ship an order that is PENDING''), demo_order) \<and>
   cancel (demo_order\<lparr>state := SHIPPED\<rparr>) =
     (Inl (IllegalStateTransition ''Cannot cancel an order that is SHIPPED''),
      demo_order\<lparr>state := SHIPPED\<rparr>)"
proof -
  have p: "trim (utf16 ''P001'') \<noteq> []" "utf16 ''P001'' \<noteq> []"
    by (simp_all add: utf16_def trim_def isWhiteSpace_def)
  have d: "state demo_order = PENDING"
    by (simp add: demo_order_def)
  have 1: "fst (addItem (utf16 ''i-1'') (utf16 ''P001'') (Fin 0) (Fin 100) demo_order) =
     Inl (InvalidArgument ''Quantity must be greater than zero'')"
    using p by (simp add: addItem_def)
  have 2: "fst (confirm (demo_order\<lparr>state := SHIPPED\<rparr>)) =
     Inl (IllegalStateTransition ''Cannot confirm an order that is SHIPPED'')"
    by (simp add: confirm_def)
  have 3: "fst (ship demo_order) =
     Inl (IllegalStateTransition ''Cannot ship an order that is PENDING'')"
    using d by (simp add: ship_def)
  have 4: "fst (cancel (demo_order\<lparr>state := SHIPPED\<rparr>)) =
     Inl (IllegalStateTransition ''Cannot cancel an order that is SHIPPED'')"
    by (simp add: cancel_def)
  show ?thesis
    using 1 2 3 4
      failure_leaves_order_unchanged [of "utf16 ''i-1''" "utf16 ''P001''" "Fin 0" "Fin 100" demo_order
        "InvalidArgument ''Quantity must be greater than zero''"
        "snd (addItem (utf16 ''i-1'') (utf16 ''P001'') (Fin 0) (Fin 100) demo_order)"]
      failure_leaves_order_unchanged [of _ _ _ _ "demo_order\<lparr>state := SHIPPED\<rparr>"
        "IllegalStateTransition ''Cannot confirm an order that is SHIPPED''"
        "snd (confirm (demo_order\<lparr>state := SHIPPED\<rparr>))"]
      failure_leaves_order_unchanged [of _ _ _ _ demo_order
        "IllegalStateTransition ''Cannot ship an order that is PENDING''"
        "snd (ship demo_order)"]
      failure_leaves_order_unchanged [of _ _ _ _ "demo_order\<lparr>state := SHIPPED\<rparr>"
        "IllegalStateTransition ''Cannot cancel an order that is SHIPPED''"
        "snd (cancel (demo_order\<lparr>state := SHIPPED\<rparr>))"]
    by (simp add: prod_eq_iff)
qed

text \<open>
  Claim C9 says that every stored quantity is a positive integer. addItem only rejects a
  quantity \<open>\<le> 0\<close>: on the new demonstration order it accepts and stores the quantity
  1/2.
\<close>

theorem stored_quantity_fraction_counterexample:
  "SalesOrder_new 0 (utf16 ''o-1'') (utf16 ''c-1'') usd None = Inr demo_order \<and>
   fst (addItem (utf16 ''i-1'') (utf16 ''P001'') (Fin (1 / 2)) (Fin 100) demo_order) = Inr () \<and>
   map quantity (items (snd (addItem (utf16 ''i-1'') (utf16 ''P001'') (Fin (1 / 2)) (Fin 100)
      demo_order))) = [Fin (1 / 2)] \<and>
   \<not> positive_integer (Fin (1 / 2))"
proof -
  have half: "\<lfloor>(1::rat) / 2\<rfloor> = 0"
    by (rule floor_unique) simp_all
  have "\<not> positive_integer (Fin (1 / 2))"
    unfolding positive_integer_def by (simp add: half)
  then show ?thesis
    by (simp add: SalesOrder_new_def DateTime_new_def demo_order_def utf16_def trim_def
        isWhiteSpace_def addItem_def canAddItems_def Let_def SalesOrderItem_new_def)
qed

text \<open>
  Claim C9, as amended. On every order that can exist, every stored quantity has passed
  the test of addItem, that is \<^verbatim>\<open>quantity <= 0\<close> is false for it: a stored quantity
  that is a finite number is greater than zero (and need not be an integer). A call of
  addItem succeeds only with such a quantity.
\<close>

theorem stored_quantities_accepted:
  assumes "SalesOrder_new now uuid cid cur arg = Inr ord0"
  shows "quantities_accepted (perform_all calls ord0) \<and>
         (\<forall>i \<in> set (items (perform_all calls ord0)). \<forall>x. quantity i = Fin x \<longrightarrow> 0 < x) \<and>
         (addItem u pid q a ord = (Inr (), ord') \<longrightarrow> \<not> num_le q (Fin 0))"
proof -
  from assms have "quantities_accepted ord0"
    by (auto dest: SalesOrder_new_Inr simp add: quantities_accepted_def)
  then have inv: "quantities_accepted (perform_all calls ord0)"
    by (rule perform_all_quantities_accepted)
  then have pos: "\<forall>i \<in> set (items (perform_all calls ord0)). \<forall>x. quantity i = Fin x \<longrightarrow> 0 < x"
    by (auto simp add: quantities_accepted_def list_all_iff)
  have acc: "addItem u pid q a ord = (Inr (), ord') \<longrightarrow> \<not> num_le q (Fin 0)"
    by (auto simp add: addItem_def Let_def split: if_splits)
  from inv pos acc show ?thesis by blast
qed

theorem stored_quantities_accepted_witness:
  "SalesOrder_new 0 (utf16 ''o-1'') (utf16 ''c-1'') usd None = Inr demo_order \<and>
   map quantity (items (perform_all
      [AddItem (utf16 ''i-1'') (utf16 ''P001'') (Fin (1 / 2)) (Fin 100),
       AddItem (utf16 ''i-2'') (utf16 ''P002'') (Fin 0) (Fin 50)] demo_order)) = [Fin (1 / 2)] \<and>
   quantities_accepted (perform_all
      [AddItem (utf16 ''i-1'') (utf16 ''P001'') (Fin (1 / 2)) (Fin 100),
       AddItem (utf16 ''i-2'') (utf16 ''P002'') (Fin 0) (Fin 50)] demo_order)"
proof -
  have run: "map quantity (items (perform_all
      [AddItem (utf16 ''i-1'') (utf16 ''P001'') (Fin (1 / 2)) (Fin 100),
       AddItem (utf16 ''i-2'') (utf16 ''P002'') (Fin 0) (Fin 50)] demo_order)) = [Fin (1 / 2)]"
    by (simp add: perform_all_def addItem_def canAddItems_def demo_order_def utf16_def
        trim_def isWhiteSpace_def Let_def SalesOrderItem_new_def)
  show ?thesis
    using run demo_order_new
      stored_quantities_accepted [OF demo_order_new, where calls =
        "[AddItem (utf16 ''i-1'') (utf16 ''P001'') (Fin (1 / 2)) (Fin 100),
          AddItem (utf16 ''i-2'') (utf16 ''P002'') (Fin 0) (Fin 50)]"]
    by simp
qed

text \<open>
  Claim C10. The checks of the arguments run before the state guard: on a CANCELLED or
  SHIPPED order, a blank productId fails with InvalidArgument "Product ID cannot be
  empty", and a quantity \<open>\<le> 0\<close> (with a productId that is not blank) with
  InvalidArgument "Quantity must be greater than zero"; in neither case is the error
  IllegalStateTransition.
\<close>

theorem addItem_argument_checks_before_state_guard:
  assumes "state ord = CANCELLED \<or> state ord = SHIPPED"
  shows "(trim pid = [] \<longrightarrow>
            addItem uuid pid q a ord =
              (Inl (InvalidArgument ''Product ID cannot be empty''), ord)) \<and>
         (trim pid \<noteq> [] \<and> num_le q (Fin 0) \<longrightarrow>
            addItem uuid pid q a ord =
              (Inl (InvalidArgument ''Quantity must be greater than zero''), ord)) \<and>
         (trim pid = [] \<or> num_le q (Fin 0) \<longrightarrow>
            (\<forall>m. fst (addItem uuid pid q a ord) \<noteq> Inl (IllegalStateTransition m)))"
  by (auto simp add: addItem_def trim_Nil)

theorem addItem_argument_checks_before_state_guard_witness:
  "state (demo_order\<lparr>state := CANCELLED\<rparr>) = CANCELLED \<and>
   addItem (utf16 ''i-1'') (utf16 ''  '') (Fin 2) (Fin 100) (demo_order\<lparr>state := CANCELLED\<rparr>) =
     (Inl (InvalidArgument ''Product ID cannot be empty''), demo_order\<lparr>state := CANCELLED\<rparr>) \<and>
   addItem (utf16 ''i-1'') (utf16 ''P001'') (Fin (- 1)) (Fin 100)
       (demo_order\<lparr>state := CANCELLED\<rparr>) =
     (Inl (InvalidArgument ''Quantity must be greater than zero''),
      demo_order\<lparr>state := CANCELLED\<rparr>)"
proof -
  have s: "state (demo_order\<lparr>state := CANCELLED\<rparr>) = CANCELLED \<or>
           state (demo_order\<lparr>state := CANCELLED\<rparr>) = SHIPPED"
    by simp
  have t: "trim (utf16 ''  '') = []" "trim (utf16 ''P001'') \<noteq> []"
    by (simp_all add: utf16_def trim_def isWhiteSpace_def)
  show ?thesis
    using t addItem_argument_checks_before_state_guard [OF s, of "utf16 ''  ''" "utf16 ''i-1''" "Fin 2" "Fin 100"]
      addItem_argument_checks_before_state_guard [OF s, of "utf16 ''P001''" "utf16 ''i-1''" "Fin (- 1)" "Fin 100"]
    by simp
qed

end
